theory Spec2Isabelle
  imports Complex_Main
begin

section \<open>Data model of the UI (stores/analysis.ts)\<close>

text \<open>
  A TypeScript \<open>number\<close> is modelled as a rational, for a confidence as well as for
  the parse index of the store, which no operation restricts to whole numbers. The
  numbers that are not finite appear where a caller can hand them in. An optional
  field (\<open>f?: T\<close>) is a \<open>T option\<close>, with \<open>None\<close> for \<open>undefined\<close>. A value of type
  \<open>unknown\<close> is a JSON value.
\<close>

datatype json =
    JNull
  | JBool bool
  | JNum rat
  | JStr string
  | JArr "json list"
  | JObj "(string \<times> json) list"

datatype AnalysisMode = Production | Educational | Academic

datatype DisplayScript = Devanagari | Iast | Slp1

record ScriptVariants =
  devanagari :: string
  iast :: string
  slp1 :: string
  itrans :: "string option"

record MorphologicalTag =
  pos :: "string option"
  gender :: "string option"
  number :: "string option"
  case_tag :: "string option"
  person :: "string option"
  tense :: "string option"
  mood :: "string option"
  voice :: "string option"

record DhatuInfo =
  dhatu :: string
  meaning :: "string option"
  gana :: "rat option"
  pada :: "string option"

record BaseWord =
  word_id :: string
  lemma_form :: string
  bw_surface_form :: string
  bw_scripts :: "ScriptVariants option"
  morphology :: "MorphologicalTag option"
  meanings :: "string list"
  bw_dhatu :: "DhatuInfo option"
  bw_confidence :: rat

record SandhiGroup =
  group_id :: string
  surface_form :: string
  base_words :: "BaseWord list"

record ParseTree =
  parse_id :: string
  pt_confidence :: rat
  sandhi_groups :: "SandhiGroup list"
  is_selected :: bool

record ConfidenceMetrics =
  overall :: rat
  engine_agreement :: rat
  disambiguation_score :: "rat option"

record AnalysisTree =
  sentence_id :: string
  original_text :: string
  normalized_slp1 :: string
  scripts :: ScriptVariants
  parse_forest :: "ParseTree list"
  confidence :: ConfidenceMetrics
  at_mode :: string
  cached_at :: "string option"
  cache_tier :: "string option"
  needs_human_review :: bool
  engine_details :: "(string \<times> json) list option"

section \<open>The analysis store (useAnalysisStore)\<close>

record store =
  inputText :: string
  mode :: AnalysisMode
  displayScript :: DisplayScript
  result :: "AnalysisTree option"
  currentParseIndex :: rat
  isLoading :: bool
  error :: "string option"

definition initial_store :: store where
  "initial_store =
     \<lparr>inputText = [], mode = Production, displayScript = Devanagari, result = None,
      currentParseIndex = 0, isLoading = False, error = None\<rparr>"

text \<open>
  Reading a JavaScript array with a number as the key: a whole number inside the array
  gives the element, any other number (outside the array, or not whole, such as 1.5)
  gives \<open>undefined\<close>. The getter \<open>currentParse\<close> can also return \<open>null\<close>.
\<close>

datatype 'a js_value = Null | Undefined | Value 'a

definition is_whole :: "rat \<Rightarrow> bool" where
  "is_whole q = (q = of_int \<lfloor>q\<rfloor>)"

definition array_get :: "'a list \<Rightarrow> rat \<Rightarrow> 'a js_value" where
  "array_get xs q =
     (if is_whole q \<and> 0 \<le> q \<and> q < of_nat (length xs) then Value (xs ! nat \<lfloor>q\<rfloor>)
      else Undefined)"

text \<open>
  The argument of \<open>selectParse\<close> is any JavaScript number. Every comparison with
  \<open>NaN\<close> is false; positive infinity is not less than a length, and negative infinity
  is not at least 0.
\<close>

datatype js_number = Finite rat | NaN | PosInfinity | NegInfinity

definition currentParse :: "store \<Rightarrow> ParseTree js_value" where
  "currentParse s =
     (case result s of
        None \<Rightarrow> Null
      | Some r \<Rightarrow>
          if length (parse_forest r) = 0 then Null
          else array_get (parse_forest r) (currentParseIndex s))"

definition parseCount :: "store \<Rightarrow> nat" where
  "parseCount s = (case result s of None \<Rightarrow> 0 | Some r \<Rightarrow> length (parse_forest r))"

definition hasMultipleParses :: "store \<Rightarrow> bool" where
  "hasMultipleParses s = (parseCount s > 1)"

definition setInputText :: "string \<Rightarrow> store \<Rightarrow> store" where
  "setInputText t s = s\<lparr>inputText := t\<rparr>"

definition setMode :: "AnalysisMode \<Rightarrow> store \<Rightarrow> store" where
  "setMode newMode s = s\<lparr>mode := newMode\<rparr>"

definition setDisplayScript :: "DisplayScript \<Rightarrow> store \<Rightarrow> store" where
  "setDisplayScript script s = s\<lparr>displayScript := script\<rparr>"

definition setResult :: "AnalysisTree \<Rightarrow> store \<Rightarrow> store" where
  "setResult analysisResult s =
     s\<lparr>result := Some analysisResult, currentParseIndex := 0, error := None\<rparr>"

definition setLoading :: "bool \<Rightarrow> store \<Rightarrow> store" where
  "setLoading loading s = s\<lparr>isLoading := loading\<rparr>"

definition setError :: "string option \<Rightarrow> store \<Rightarrow> store" where
  "setError errorMessage s = s\<lparr>error := errorMessage\<rparr>"

definition nextParse :: "store \<Rightarrow> store" where
  "nextParse s =
     (case result s of
        None \<Rightarrow> s
      | Some r \<Rightarrow>
          if currentParseIndex s < of_nat (length (parse_forest r)) - 1
          then s\<lparr>currentParseIndex := currentParseIndex s + 1\<rparr>
          else s)"

definition previousParse :: "store \<Rightarrow> store" where
  "previousParse s =
     (if currentParseIndex s > 0
      then s\<lparr>currentParseIndex := currentParseIndex s - 1\<rparr>
      else s)"

definition selectParse :: "js_number \<Rightarrow> store \<Rightarrow> store" where
  "selectParse index s =
     (case result s of
        None \<Rightarrow> s
      | Some r \<Rightarrow>
          (case index of
             Finite q \<Rightarrow>
               if q \<ge> 0 \<and> q < of_nat (length (parse_forest r))
               then s\<lparr>currentParseIndex := q\<rparr>
               else s
           | _ \<Rightarrow> s))"

definition reset :: "store \<Rightarrow> store" where
  "reset s = s\<lparr>result := None, currentParseIndex := 0, error := None, isLoading := False\<rparr>"

text \<open>The actions of the store as data, and a run of a sequence of them.\<close>

datatype action =
    SetInputText string
  | SetMode AnalysisMode
  | SetDisplayScript DisplayScript
  | SetResult AnalysisTree
  | SetLoading bool
  | SetError "string option"
  | NextParse
  | PreviousParse
  | SelectParse js_number
  | Reset

fun apply_action :: "action \<Rightarrow> store \<Rightarrow> store" where
  "apply_action (SetInputText t) s = setInputText t s"
| "apply_action (SetMode m) s = setMode m s"
| "apply_action (SetDisplayScript d) s = setDisplayScript d s"
| "apply_action (SetResult r) s = setResult r s"
| "apply_action (SetLoading b) s = setLoading b s"
| "apply_action (SetError e) s = setError e s"
| "apply_action NextParse s = nextParse s"
| "apply_action PreviousParse s = previousParse s"
| "apply_action (SelectParse i) s = selectParse i s"
| "apply_action Reset s = reset s"

fun run_actions :: "action list \<Rightarrow> store \<Rightarrow> store" where
  "run_actions [] s = s"
| "run_actions (a # as) s = run_actions as (apply_action a s)"

section \<open>The API client (api/client.ts)\<close>

record AnalyzeRequest =
  req_text :: string
  req_mode :: "AnalysisMode option"
  return_all_parses :: "bool option"
  req_context :: "string option"
  req_engines :: "string list option"
  bypass_cache :: "bool option"

record DisambiguateRequest =
  dr_sentence_id :: string
  selected_parse :: string

text \<open>The \<open>options\<close> argument of \<open>analyzeText\<close>.\<close>

record analyze_options =
  returnAllParses :: "bool option"
  opt_context :: "string option"
  opt_engines :: "string list option"
  bypassCache :: "bool option"

text \<open>
  What a \<open>catch\<close> clause can receive: an \<open>ApiError\<close> (message, status, detail), any
  other \<open>Error\<close> (message), or a value that is not an \<open>Error\<close>.
\<close>

datatype thrown =
    ApiError string "int option" "string option"
  | JsError string
  | NotAnError json

text \<open>The failure that the transport (axios) hands to the response interceptor.\<close>

record AxiosError =
  ax_message :: string
  ax_status :: "int option"
  ax_detail :: "string option"

text \<open>\<open>a || b\<close> on optional strings: \<open>undefined\<close> and the empty string are falsy.\<close>

definition truthy :: "string option \<Rightarrow> bool" where
  "truthy x = (case x of None \<Rightarrow> False | Some t \<Rightarrow> t \<noteq> [])"

definition interceptor :: "AxiosError \<Rightarrow> thrown" where
  "interceptor e =
     (let message =
        (if truthy (ax_detail e) then the (ax_detail e)
         else if ax_message e \<noteq> [] then ax_message e
         else ''Unknown error'')
      in ApiError message (ax_status e) (ax_detail e))"

text \<open>
  The request objects are sent as JSON; a field whose value is \<open>undefined\<close> is left
  out of the body.
\<close>

definition mode_name :: "AnalysisMode \<Rightarrow> string" where
  "mode_name m =
     (case m of Production \<Rightarrow> ''production'' | Educational \<Rightarrow> ''educational''
      | Academic \<Rightarrow> ''academic'')"

definition opt_field :: "string \<Rightarrow> ('a \<Rightarrow> json) \<Rightarrow> 'a option \<Rightarrow> (string \<times> json) list" where
  "opt_field name enc v = (case v of None \<Rightarrow> [] | Some x \<Rightarrow> [(name, enc x)])"

definition AnalyzeRequest_json :: "AnalyzeRequest \<Rightarrow> json" where
  "AnalyzeRequest_json r =
     JObj ([(''text'', JStr (req_text r))]
           @ opt_field ''mode'' (\<lambda>m. JStr (mode_name m)) (req_mode r)
           @ opt_field ''return_all_parses'' JBool (return_all_parses r)
           @ opt_field ''context'' JStr (req_context r)
           @ opt_field ''engines'' (\<lambda>es. JArr (map JStr es)) (req_engines r)
           @ opt_field ''bypass_cache'' JBool (bypass_cache r))"

definition DisambiguateRequest_json :: "DisambiguateRequest \<Rightarrow> json" where
  "DisambiguateRequest_json r =
     JObj [(''sentence_id'', JStr (dr_sentence_id r)),
           (''selected_parse'', JStr (selected_parse r))]"

text \<open>
  The transport is the environment: given a path and a JSON body it answers with an
  analysis tree or fails. \<open>api_post\<close> is the client with its response interceptor.
\<close>

type_synonym transport = "string \<Rightarrow> json \<Rightarrow> AxiosError + AnalysisTree"

definition api_post :: "transport \<Rightarrow> string \<Rightarrow> json \<Rightarrow> thrown + AnalysisTree" where
  "api_post tr path body =
     (case tr path body of Inl e \<Rightarrow> Inl (interceptor e) | Inr t \<Rightarrow> Inr t)"

definition analyzeText_request ::
  "string \<Rightarrow> AnalysisMode option \<Rightarrow> analyze_options option \<Rightarrow> AnalyzeRequest" where
  "analyzeText_request text_arg mode_arg options =
     \<lparr>req_text = text_arg,
      req_mode = Some (case mode_arg of None \<Rightarrow> Production | Some m \<Rightarrow> m),
      return_all_parses = (case options of None \<Rightarrow> None | Some opts \<Rightarrow> returnAllParses opts),
      req_context = (case options of None \<Rightarrow> None | Some opts \<Rightarrow> opt_context opts),
      req_engines = (case options of None \<Rightarrow> None | Some opts \<Rightarrow> opt_engines opts),
      bypass_cache = (case options of None \<Rightarrow> None | Some opts \<Rightarrow> bypassCache opts)\<rparr>"

definition analyzeText ::
  "transport \<Rightarrow> string \<Rightarrow> AnalysisMode option \<Rightarrow> analyze_options option
     \<Rightarrow> thrown + AnalysisTree" where
  "analyzeText tr text_arg mode_arg options =
     api_post tr ''/api/v1/analyze''
       (AnalyzeRequest_json (analyzeText_request text_arg mode_arg options))"

definition saveDisambiguation_request :: "string \<Rightarrow> string \<Rightarrow> DisambiguateRequest" where
  "saveDisambiguation_request sentenceId selectedParse =
     \<lparr>dr_sentence_id = sentenceId, selected_parse = selectedParse\<rparr>"

definition saveDisambiguation :: "transport \<Rightarrow> string \<Rightarrow> string \<Rightarrow> thrown + AnalysisTree" where
  "saveDisambiguation tr sentenceId selectedParse =
     api_post tr ''/api/v1/disambiguate''
       (DisambiguateRequest_json (saveDisambiguation_request sentenceId selectedParse))"

text \<open>Reading a field of a JSON object.\<close>

definition json_field :: "string \<Rightarrow> json \<Rightarrow> json option" where
  "json_field name j = (case j of JObj fs \<Rightarrow> map_of fs name | _ \<Rightarrow> None)"

definition is_JNum :: "json \<Rightarrow> bool" where
  "is_JNum j = (case j of JNum _ \<Rightarrow> True | _ \<Rightarrow> False)"

section \<open>The server side of the human override\<close>

text \<open>
  The route behind \<open>/api/v1/disambiguate\<close> is not among the sources. The client
  declares what it sends (a sentence identifier and the selected parse, both strings)
  and what it gets back (an analysis tree); what the server does in between is
  modelled from the specification.
\<close>

text \<open>
  Modelled from the spec: the results that the missing server keeps, as a list of
  result versions, newest first. Recording a human choice "creates a new result
  version, does not mutate in place".
\<close>

type_synonym versions = "AnalysisTree list"

text \<open>
  Modelled from the spec: the RESOLVED state of a result of the missing pipeline, on
  the fields of the analysis tree: one parse of the forest is marked as selected ("at
  most one element is marked selected after disambiguation") and the result does not
  ask for human review (which it does in \<open>HUMAN_PENDING\<close>).
\<close>

definition resolved :: "AnalysisTree \<Rightarrow> bool" where
  "resolved t =
     (\<not> needs_human_review t \<and> length (filter is_selected (parse_forest t)) = 1)"

text \<open>
  Modelled from the spec: the result version that the missing \<open>resolve\<close> produces from
  a prior result and the position of the chosen parse: the parse at that position is
  the selected one, and the result is no longer pending.
\<close>

definition record_choice :: "nat \<Rightarrow> AnalysisTree \<Rightarrow> AnalysisTree" where
  "record_choice i prior =
     prior\<lparr>parse_forest :=
             map (\<lambda>j. (parse_forest prior ! j)\<lparr>is_selected := (j = i)\<rparr>)
               [0..<length (parse_forest prior)],
           needs_human_review := False\<rparr>"

text \<open>
  Modelled from the spec: \<open>resolve\<close> of the missing server. It finds the newest version
  of the result with the sentence identifier, finds the chosen parse in its forest,
  and adds the new RESOLVED version in front of the versions it keeps, which stay as
  they are. The client names the chosen parse by a string; how the server finds the
  parse that the string names is the parameter \<open>locate\<close>. An unknown sentence or a
  string that names no parse of the forest is refused and changes nothing.
\<close>

definition resolve ::
  "(string \<Rightarrow> ParseTree list \<Rightarrow> nat option) \<Rightarrow> versions \<Rightarrow> string \<Rightarrow> string
     \<Rightarrow> (AxiosError + AnalysisTree) \<times> versions" where
  "resolve locate vs sid sp =
     (case find (\<lambda>t. sentence_id t = sid) vs of
        None \<Rightarrow>
          (Inl \<lparr>ax_message = ''Request failed with status code 404'', ax_status = Some 404,
                ax_detail = None\<rparr>, vs)
      | Some prior \<Rightarrow>
          (case locate sp (parse_forest prior) of
             None \<Rightarrow>
               (Inl \<lparr>ax_message = ''Request failed with status code 400'', ax_status = Some 400,
                     ax_detail = None\<rparr>, vs)
           | Some i \<Rightarrow>
               if i < length (parse_forest prior)
               then (Inr (record_choice i prior), record_choice i prior # vs)
               else
                 (Inl \<lparr>ax_message = ''Request failed with status code 400'',
                       ax_status = Some 400, ax_detail = None\<rparr>, vs)))"

text \<open>
  Modelled from the spec: the missing server as the client reaches it. It reads the
  two strings of the body that the client sends to \<open>/api/v1/disambiguate\<close> and
  resolves; any other request is refused.
\<close>

definition server_disambiguate ::
  "(string \<Rightarrow> ParseTree list \<Rightarrow> nat option) \<Rightarrow> versions \<Rightarrow> string \<Rightarrow> json
     \<Rightarrow> (AxiosError + AnalysisTree) \<times> versions" where
  "server_disambiguate locate vs path body =
     (if path = ''/api/v1/disambiguate'' then
        (case (json_field ''sentence_id'' body, json_field ''selected_parse'' body) of
           (Some (JStr sid), Some (JStr sp)) \<Rightarrow> resolve locate vs sid sp
         | _ \<Rightarrow>
             (Inl \<lparr>ax_message = ''Request failed with status code 422'', ax_status = Some 422,
                   ax_detail = None\<rparr>, vs))
      else
        (Inl \<lparr>ax_message = ''Request failed with status code 404'', ax_status = Some 404,
              ax_detail = None\<rparr>, vs))"

text \<open>
  Modelled from the spec: the transport of the client when the missing server holds
  the given versions.
\<close>

definition server_transport ::
  "(string \<Rightarrow> ParseTree list \<Rightarrow> nat option) \<Rightarrow> versions \<Rightarrow> transport" where
  "server_transport locate vs path body = fst (server_disambiguate locate vs path body)"

section \<open>The application shell (App.vue)\<close>

text \<open>
  \<open>handleAnalyze\<close> awaits \<open>analyzeText\<close>. The awaited call is modelled by its outcome,
  a thrown value or an analysis tree, and the handler runs from its first statement to
  the end of its \<open>finally\<close> block as one step.
\<close>

record app =
  app_store :: store
  selectedNode :: "(string \<times> json) option"

definition App_handleAnalyze_begin :: "app \<Rightarrow> app" where
  "App_handleAnalyze_begin a =
     \<lparr>app_store = setError None (setLoading True (app_store a)), selectedNode = None\<rparr>"

definition App_handleAnalyze_settle :: "thrown + AnalysisTree \<Rightarrow> app \<Rightarrow> app" where
  "App_handleAnalyze_settle outcome a =
     (let st = app_store a;
          st' = (case outcome of
                   Inr res \<Rightarrow> setResult res st
                 | Inl (ApiError msg status detail) \<Rightarrow>
                     setError (Some (if truthy detail then the detail else msg)) st
                 | Inl (JsError msg) \<Rightarrow> setError (Some msg) st
                 | Inl (NotAnError v) \<Rightarrow> setError (Some ''Analysis failed'') st)
      in a\<lparr>app_store := setLoading False st'\<rparr>)"

definition App_handleAnalyze ::
  "(string \<Rightarrow> AnalysisMode \<Rightarrow> thrown + AnalysisTree) \<Rightarrow> string \<Rightarrow> AnalysisMode \<Rightarrow> app \<Rightarrow> app" where
  "App_handleAnalyze analyze_call text_arg mode_arg a =
     App_handleAnalyze_settle (analyze_call text_arg mode_arg) (App_handleAnalyze_begin a)"

text \<open>
  The confidence badge of the result header: the classes that the class binding
  switches on, and the review badge next to it.
\<close>

definition confidence_badge :: "rat \<Rightarrow> string list" where
  "confidence_badge c =
     (if c \<ge> 8 / 10 then [''high''] else [])
     @ (if c \<ge> 5 / 10 \<and> c < 8 / 10 then [''medium''] else [])
     @ (if c < 5 / 10 then [''low''] else [])"

definition review_badge :: "AnalysisTree \<Rightarrow> string option" where
  "review_badge r = (if needs_human_review r then Some ''Needs Review'' else None)"

section \<open>Confidence colours and classes (ParseTree.vue, NodeDetail.vue)\<close>

definition getConfidenceColor :: "rat \<Rightarrow> string" where
  "getConfidenceColor c =
     (if c \<ge> 8 / 10 then ''#22c55e''
      else if c \<ge> 5 / 10 then ''#eab308''
      else ''#ef4444'')"

definition getConfidenceClass :: "rat \<Rightarrow> string" where
  "getConfidenceClass c =
     (if c \<ge> 8 / 10 then ''high''
      else if c \<ge> 5 / 10 then ''medium''
      else ''low'')"

section \<open>The input bar (InputBar.vue)\<close>

text \<open>
  \<open>String.prototype.trim\<close> removes white space and line terminators from both ends.
  Among the characters of \<^typ>\<open>char\<close> these are tab, line feed, vertical tab, form
  feed, carriage return, space and the no-break space.
\<close>

definition js_whitespace :: "char \<Rightarrow> bool" where
  "js_whitespace c = (of_char c \<in> {9, 10, 11, 12, 13, 32, 160 :: nat})"

definition trim :: "string \<Rightarrow> string" where
  "trim t = rev (dropWhile js_whitespace (rev (dropWhile js_whitespace t)))"

definition canAnalyze :: "store \<Rightarrow> bool" where
  "canAnalyze s = (length (trim (inputText s)) > 0 \<and> \<not> isLoading s)"

definition InputBar_handleAnalyze :: "store \<Rightarrow> (string \<times> AnalysisMode) option" where
  "InputBar_handleAnalyze s = (if canAnalyze s then Some (inputText s, mode s) else None)"

record KeyboardEvent =
  key :: string
  shiftKey :: bool

definition InputBar_handleKeydown :: "KeyboardEvent \<Rightarrow> store \<Rightarrow> (string \<times> AnalysisMode) option" where
  "InputBar_handleKeydown ev s =
     (if key ev = ''Enter'' \<and> \<not> shiftKey ev then InputBar_handleAnalyze s else None)"

text \<open>
  What can happen to the input bar: a click on the Analyze button, a key pressed in the
  text input, an edit of the text, a choice in one of the two selectors, a click on an
  example, and any action on the shared store by the rest of the application.
\<close>

datatype ui_event =
    ClickAnalyze
  | Keydown KeyboardEvent
  | EditText string
  | ChooseMode AnalysisMode
  | ChooseScript DisplayScript
  | ClickExample string
  | StoreAction action

fun InputBar_emit :: "ui_event \<Rightarrow> store \<Rightarrow> (string \<times> AnalysisMode) option" where
  "InputBar_emit ClickAnalyze s = InputBar_handleAnalyze s"
| "InputBar_emit (Keydown ev) s = InputBar_handleKeydown ev s"
| "InputBar_emit _ s = None"

fun InputBar_update :: "ui_event \<Rightarrow> store \<Rightarrow> store" where
  "InputBar_update (EditText t) s = s\<lparr>inputText := t\<rparr>"
| "InputBar_update (ChooseMode m) s = s\<lparr>mode := m\<rparr>"
| "InputBar_update (ChooseScript d) s = s\<lparr>displayScript := d\<rparr>"
| "InputBar_update (ClickExample t) s = setInputText t s"
| "InputBar_update (StoreAction a) s = apply_action a s"
| "InputBar_update _ s = s"

text \<open>
  The emissions of a sequence of events, each with the store as it was when the event
  was handled.
\<close>

fun InputBar_run :: "ui_event list \<Rightarrow> store \<Rightarrow> (store \<times> string \<times> AnalysisMode) list" where
  "InputBar_run [] s = []"
| "InputBar_run (ev # evs) s =
     (case InputBar_emit ev s of
        None \<Rightarrow> InputBar_run evs (InputBar_update ev s)
      | Some payload \<Rightarrow> (s, payload) # InputBar_run evs (InputBar_update ev s))"

section \<open>The ensemble combiner\<close>

text \<open>
  The ensemble module, the cache and the orchestrator of the repository are not among
  the sources. The definitions of this section and of the two that follow are
  modelled from the specification; each says so. Weights and confidences are
  rationals.
\<close>

text \<open>
  Modelled from the spec: the CandidateParse of the data model, which the missing
  engine adapters produce: an ordered sequence of sandhi groups, a confidence and, for
  a merged candidate, the confidence of each contributing engine.
\<close>

record CandidateParse =
  cp_groups :: "SandhiGroup list"
  cp_confidence :: rat
  cp_votes :: "(string \<times> rat) list"

text \<open>
  Modelled from the spec: the answer of one missing EngineAdapter, a list of
  candidates or a failure with its reason (timeout, malformed response, unreachable
  backend).
\<close>

datatype engine_outcome = EngineResult "CandidateParse list" | EngineFailure string

text \<open>
  Modelled from the spec: what the missing combiner receives for one enabled engine:
  its name, its configured trust weight and the outcome of its adapter.
\<close>

type_synonym engine_run = "string \<times> rat \<times> engine_outcome"

text \<open>
  Modelled from the spec: what the missing combiner returns: the parse forest and the
  \<open>TotalEngineFailure\<close> signal.
\<close>

record combiner_output =
  forest :: "CandidateParse list"
  total_engine_failure :: bool

text \<open>
  Modelled from the spec: the merge key of the missing combiner. Structural
  equivalence is "identical sandhi split points and identical lemma sequence", so the
  key of a candidate is the lemma sequence of each of its sandhi groups.
\<close>

definition structure_key :: "CandidateParse \<Rightarrow> string list list" where
  "structure_key c = map (\<lambda>g. map lemma_form (base_words g)) (cp_groups c)"

text \<open>
  Modelled from the spec: the candidates that an engine contributes to the missing
  combiner; a failed engine contributes none.
\<close>

definition candidates_of :: "engine_outcome \<Rightarrow> CandidateParse list" where
  "candidates_of out = (case out of EngineResult cs \<Rightarrow> cs | EngineFailure _ \<Rightarrow> [])"

text \<open>
  Modelled from the spec: an engine responds to the missing combiner when its adapter
  returns a result and not a failure.
\<close>

definition responded :: "engine_outcome \<Rightarrow> bool" where
  "responded out = (case out of EngineResult _ \<Rightarrow> True | EngineFailure _ \<Rightarrow> False)"

text \<open>
  Modelled from the spec: the candidate of an engine in one equivalence group of the
  missing combiner, the first one with the key of the group; \<open>None\<close> when the engine
  abstains (it failed or it has no candidate in the group).
\<close>

definition vote_in :: "string list list \<Rightarrow> engine_outcome \<Rightarrow> CandidateParse option" where
  "vote_in k out = find (\<lambda>c. structure_key c = k) (candidates_of out)"

text \<open>
  Modelled from the spec: the equivalence groups of the missing combiner, one key for
  each structure that some engine proposes.
\<close>

definition group_keys :: "engine_run list \<Rightarrow> string list list list" where
  "group_keys runs =
     remdups (concat (map (\<lambda>(n, w, out). map structure_key (candidates_of out)) runs))"

text \<open>
  Modelled from the spec: the engines that respond in one group of the missing
  combiner, each with its configured weight and its candidate.
\<close>

definition responders :: "string list list \<Rightarrow> engine_run list \<Rightarrow> (string \<times> rat \<times> CandidateParse) list" where
  "responders k runs =
     concat (map (\<lambda>(n, w, out). case vote_in k out of None \<Rightarrow> [] | Some c \<Rightarrow> [(n, w, c)]) runs)"

text \<open>
  Modelled from the spec: the configured weight of the engines that abstain in one
  group of the missing combiner.
\<close>

definition abstained_weight :: "string list list \<Rightarrow> engine_run list \<Rightarrow> rat" where
  "abstained_weight k runs =
     sum_list (concat (map (\<lambda>(n, w, out). case vote_in k out of None \<Rightarrow> [w] | Some c \<Rightarrow> []) runs))"

text \<open>
  Modelled from the spec: the configured weight of the engines that respond in one
  group of the missing combiner.
\<close>

definition responding_weight :: "string list list \<Rightarrow> engine_run list \<Rightarrow> rat" where
  "responding_weight k runs = sum_list (map (\<lambda>(n, w, c). w) (responders k runs))"

text \<open>
  Modelled from the spec: the weights that the missing combiner uses in one group.
  The weight of the abstaining engines is redistributed among the responding ones in
  proportion to their own weights: an engine of weight \<open>w\<close> receives the share
  \<open>w / responding_weight\<close> of it. Each entry is the engine, its weight after
  redistribution and its confidence.
\<close>

definition weighted_votes :: "string list list \<Rightarrow> engine_run list \<Rightarrow> (string \<times> rat \<times> rat) list" where
  "weighted_votes k runs =
     map (\<lambda>(n, w, c).
            (n, w + abstained_weight k runs * (w / responding_weight k runs), cp_confidence c))
         (responders k runs)"

text \<open>
  Modelled from the spec: the aggregate confidence of a group in the missing combiner,
  the weighted sum of the confidences of the engines.
\<close>

definition aggregate_confidence :: "string list list \<Rightarrow> engine_run list \<Rightarrow> rat" where
  "aggregate_confidence k runs = sum_list (map (\<lambda>(n, w, c). w * c) (weighted_votes k runs))"

text \<open>
  Modelled from the spec: the candidate that the missing combiner makes of a group:
  the sandhi groups of the first responding engine, the aggregate confidence and the
  vote of each engine.
\<close>

definition merge_group :: "engine_run list \<Rightarrow> string list list \<Rightarrow> CandidateParse" where
  "merge_group runs k =
     \<lparr>cp_groups = (case responders k runs of [] \<Rightarrow> [] | (n, w, c) # _ \<Rightarrow> cp_groups c),
      cp_confidence = aggregate_confidence k runs,
      cp_votes = map (\<lambda>(n, w, c). (n, cp_confidence c)) (responders k runs)\<rparr>"

text \<open>
  Modelled from the spec: the lexicographic order of surface forms, by character code,
  for the ranking of the missing combiner.
\<close>

fun string_le :: "string \<Rightarrow> string \<Rightarrow> bool" where
  "string_le [] _ = True"
| "string_le (a # as) [] = False"
| "string_le (a # as) (b # bs) =
     ((of_char a :: nat) < of_char b \<or> (a = b \<and> string_le as bs))"

text \<open>
  Modelled from the spec: the surface form of a candidate in the missing combiner, the
  surface forms of its sandhi groups in order.
\<close>

definition surface_of :: "CandidateParse \<Rightarrow> string" where
  "surface_of c = concat (map (\<lambda>g. surface_form g @ '' '') (cp_groups c))"

text \<open>
  Modelled from the spec: the ranking order of the missing combiner: by aggregate
  confidence, descending; ties are broken by the number of contributing engines,
  descending, then by the lexicographic order of the surface form.
\<close>

definition ranks_before :: "CandidateParse \<Rightarrow> CandidateParse \<Rightarrow> bool" where
  "ranks_before a b =
     (cp_confidence a > cp_confidence b
      \<or> (cp_confidence a = cp_confidence b
          \<and> (length (cp_votes a) > length (cp_votes b)
              \<or> (length (cp_votes a) = length (cp_votes b)
                  \<and> string_le (surface_of a) (surface_of b)))))"

text \<open>
  Modelled from the spec: one step of the ranking of the missing combiner, the
  insertion of a candidate into a ranked forest.
\<close>

fun insert_ranked :: "CandidateParse \<Rightarrow> CandidateParse list \<Rightarrow> CandidateParse list" where
  "insert_ranked c [] = [c]"
| "insert_ranked c (d # ds) = (if ranks_before c d then c # d # ds else d # insert_ranked c ds)"

text \<open>Modelled from the spec: the ranking of the missing combiner.\<close>

definition rank :: "CandidateParse list \<Rightarrow> CandidateParse list" where
  "rank cs = foldr insert_ranked cs []"

text \<open>
  Modelled from the spec: the missing EnsembleCombiner. It merges the candidates of
  the responding engines into one ranked forest; when no engine responds it returns
  an empty forest and signals \<open>TotalEngineFailure\<close>.
\<close>

definition combine :: "engine_run list \<Rightarrow> combiner_output" where
  "combine runs =
     (if list_ex (\<lambda>(n, w, out). responded out) runs
      then \<lparr>forest = rank (map (merge_group runs) (group_keys runs)),
            total_engine_failure = False\<rparr>
      else \<lparr>forest = [], total_engine_failure = True\<rparr>)"

section \<open>The tiered cache\<close>

text \<open>
  Modelled from the spec: the provenance that the missing TieredCache reports, the
  tier that served a result.
\<close>

datatype tier_kind = Memory | Shared | Durable

text \<open>
  Modelled from the spec: the key of the missing TieredCache, the normalised text
  together with the mode. The hash of the pair is taken to be the pair.
\<close>

type_synonym cache_key = "string \<times> AnalysisMode"

text \<open>
  Modelled from the spec: the AnalysisResult of the data model, which the missing
  orchestrator returns: request identity, parse forest, overall confidence, selected
  index, cache tier of origin, disambiguation provenance, and the review flag.
\<close>

record AnalysisResult =
  ar_request :: cache_key
  ar_forest :: "CandidateParse list"
  ar_confidence :: rat
  ar_selected :: "nat option"
  ar_cache_tier :: "tier_kind option"
  ar_provenance :: string
  ar_needs_human_review :: bool

text \<open>Modelled from the spec: the CacheEntry of the data model, owned by the missing cache.\<close>

record CacheEntry =
  ce_key :: cache_key
  ce_result :: AnalysisResult
  created_at :: nat
  accessed_at :: nat
  access_count :: nat

text \<open>
  Modelled from the spec: the three kinds of tier of the missing TieredCache: an
  in-memory store with least-recently-used eviction at a fixed capacity, a shared
  store with a fixed time to live, a durable store without expiry.
\<close>

datatype tier_policy = MemoryLRU nat | SharedTTL nat | DurableStore

text \<open>
  Modelled from the spec: one tier of the missing TieredCache. Its entries are kept
  most recently used first. Time is a counter handed to every operation. A tier
  operation succeeds.
\<close>

record tier =
  policy :: tier_policy
  entries :: "CacheEntry list"

text \<open>Modelled from the spec: the provenance name of a tier of the missing cache.\<close>

definition kind_of :: "tier \<Rightarrow> tier_kind" where
  "kind_of t =
     (case policy t of MemoryLRU _ \<Rightarrow> Memory | SharedTTL _ \<Rightarrow> Shared | DurableStore \<Rightarrow> Durable)"

text \<open>
  Modelled from the spec: expiry in the missing cache. An entry of the shared tier
  lives for the time to live of the tier; the other tiers do not expire.
\<close>

definition live :: "nat \<Rightarrow> tier \<Rightarrow> CacheEntry \<Rightarrow> bool" where
  "live now t e = (case policy t of SharedTTL d \<Rightarrow> now < created_at e + d | _ \<Rightarrow> True)"

text \<open>
  Modelled from the spec: eviction in the missing cache. The in-memory tier keeps its
  most recently used entries up to its capacity; the other tiers keep everything.
\<close>

definition bounded :: "tier_policy \<Rightarrow> CacheEntry list \<Rightarrow> CacheEntry list" where
  "bounded p es = (case p of MemoryLRU cap \<Rightarrow> take cap es | _ \<Rightarrow> es)"

text \<open>
  Modelled from the spec: \<open>get\<close> on one tier of the missing cache. A hit records the
  access and makes the entry the most recently used.
\<close>

definition tier_get :: "nat \<Rightarrow> tier \<Rightarrow> cache_key \<Rightarrow> AnalysisResult option \<times> tier" where
  "tier_get now t k =
     (case find (\<lambda>e. ce_key e = k \<and> live now t e) (entries t) of
        None \<Rightarrow> (None, t)
      | Some e \<Rightarrow>
          (Some (ce_result e),
           t\<lparr>entries :=
               e\<lparr>accessed_at := now, access_count := access_count e + 1\<rparr>
               # filter (\<lambda>x. ce_key x \<noteq> k) (entries t)\<rparr>))"

text \<open>
  Modelled from the spec: \<open>put\<close> on one tier of the missing cache. The new entry
  replaces an older one with the same key and is the most recently used.
\<close>

definition tier_put :: "nat \<Rightarrow> tier \<Rightarrow> cache_key \<Rightarrow> AnalysisResult \<Rightarrow> tier" where
  "tier_put now t k r =
     t\<lparr>entries :=
         bounded (policy t)
           (\<lparr>ce_key = k, ce_result = r, created_at = now, accessed_at = now, access_count = 1\<rparr>
            # filter (\<lambda>x. ce_key x \<noteq> k) (entries t))\<rparr>"

text \<open>
  Modelled from the spec: \<open>get\<close> of the missing TieredCache. It probes the tiers in
  order, fastest first; a hit at a slower tier is written into every faster tier, and
  the promotion has completed when \<open>get\<close> returns. The answer names the tier of origin.
\<close>

fun cache_get :: "nat \<Rightarrow> tier list \<Rightarrow> cache_key \<Rightarrow> (AnalysisResult \<times> tier_kind) option \<times> tier list" where
  "cache_get now [] k = (None, [])"
| "cache_get now (t # ts) k =
     (case tier_get now t k of
        (Some r, t') \<Rightarrow> (Some (r, kind_of t), t' # ts)
      | (None, _) \<Rightarrow>
          (case cache_get now ts k of
             (None, ts') \<Rightarrow> (None, t # ts')
           | (Some (r, origin), ts') \<Rightarrow> (Some (r, origin), tier_put now t k r # ts')))"

text \<open>Modelled from the spec: \<open>put\<close> of the missing TieredCache writes through to all tiers.\<close>

definition cache_put :: "nat \<Rightarrow> tier list \<Rightarrow> cache_key \<Rightarrow> AnalysisResult \<Rightarrow> tier list" where
  "cache_put now ts k r = map (\<lambda>t. tier_put now t k r) ts"

section \<open>The orchestrator\<close>

text \<open>
  Modelled from the spec: the AnalysisRequest of the data model, which the missing
  orchestrator receives.
\<close>

record AnalysisRequest =
  ar_text :: string
  ar_mode :: AnalysisMode
  ar_context :: "string option"
  ar_engines :: "string list option"
  ar_bypass_cache :: "bool option"

text \<open>Modelled from the spec: the states of the missing DisambiguationPipeline.\<close>

datatype pipeline_state = RULES | MODEL_ARBITRATION | HUMAN_PENDING | RESOLVED

text \<open>
  Modelled from the spec: what the missing DisambiguationPipeline hands back: the
  state it ended in, the selected index if any, and the provenance.
\<close>

record disambiguation =
  final_state :: pipeline_state
  selected_index :: "nat option"
  provenance :: string

text \<open>
  Modelled from the spec: the one failure that the missing orchestrator reports to
  the caller.
\<close>

datatype fatal_error = TotalEngineFailure

text \<open>
  Modelled from the spec: the cache key derivation of the missing orchestrator. The
  normalisation of the text to the canonical script form is a parameter.
\<close>

definition cache_key_of :: "(string \<Rightarrow> string) \<Rightarrow> AnalysisRequest \<Rightarrow> cache_key" where
  "cache_key_of canonical req = (canonical (ar_text req), ar_mode req)"

text \<open>
  Modelled from the spec: the fresh result that the missing orchestrator builds from
  the forest and the outcome of the pipeline. The overall confidence is that of the
  top candidate; a pipeline that ends in \<open>HUMAN_PENDING\<close> sets the review flag.
\<close>

definition build_result :: "cache_key \<Rightarrow> CandidateParse list \<Rightarrow> disambiguation \<Rightarrow> AnalysisResult" where
  "build_result k f d =
     \<lparr>ar_request = k, ar_forest = f,
      ar_confidence = (case f of [] \<Rightarrow> 0 | c # _ \<Rightarrow> cp_confidence c),
      ar_selected = selected_index d, ar_cache_tier = None,
      ar_provenance = provenance d,
      ar_needs_human_review = (final_state d = HUMAN_PENDING)\<rparr>"

text \<open>
  Modelled from the spec: \<open>analyze\<close> of the missing AnalysisOrchestrator. It computes
  the cache key; on a hit it returns the cached result with the tier of origin
  recorded; on a miss it runs the combiner, returns the fatal error on total failure,
  and otherwise runs the pipeline, writes the result into the cache and returns it.
  The adapters (with their timeouts) and the pipeline are collaborators and are
  parameters. The description of \<open>analyze\<close> gives no role to the context, the engine
  subset and the cache-bypass flag of the request, and neither does this model.
\<close>

definition analyze ::
  "(string \<Rightarrow> string) \<Rightarrow> (string \<Rightarrow> engine_run list)
     \<Rightarrow> (CandidateParse list \<Rightarrow> disambiguation)
     \<Rightarrow> nat \<Rightarrow> tier list \<Rightarrow> AnalysisRequest \<Rightarrow> (fatal_error + AnalysisResult) \<times> tier list" where
  "analyze canonical run_engines pipeline now cache req =
     (let k = cache_key_of canonical req in
      case cache_get now cache k of
        (Some (r, origin), cache') \<Rightarrow> (Inr (r\<lparr>ar_cache_tier := Some origin\<rparr>), cache')
      | (None, cache') \<Rightarrow>
          (let out = combine (run_engines (fst k)) in
           if total_engine_failure out then (Inl TotalEngineFailure, cache')
           else
             (let r = build_result k (forest out) (pipeline (forest out))
              in (Inr r, cache_put now cache' k r))))"

section \<open>The bands of the specification\<close>

text \<open>
  The confidence bands in the words of the specification: at least 0.95 is treated as
  resolved (high), 0.7 to 0.9 is the medium band, below 0.7 is the low band. The
  specification assigns no band between 0.9 and 0.95.
\<close>

definition spec_confidence_band :: "rat \<Rightarrow> string option" where
  "spec_confidence_band c =
     (if c \<ge> 95 / 100 then Some ''high''
      else if 7 / 10 \<le> c \<and> c \<le> 9 / 10 then Some ''medium''
      else if c < 7 / 10 then Some ''low''
      else None)"

text \<open>The reasons for review that the specification names.\<close>

definition spec_review_reasons :: "string list" where
  "spec_review_reasons = [''low confidence'', ''no quorum'', ''arbiter abstained'']"

section \<open>Auxiliary notions and example values\<close>

text \<open>
  The invariant that the parse navigation maintains as long as the index is a whole
  number, and the actions that keep it whole.
\<close>

definition store_ok :: "store \<Rightarrow> bool" where
  "store_ok s =
     (is_whole (currentParseIndex s) \<and> 0 \<le> currentParseIndex s \<and>
      (case result s of
         None \<Rightarrow> True
       | Some r \<Rightarrow>
           parse_forest r = [] \<or> currentParseIndex s < of_nat (length (parse_forest r))))"

definition whole_index :: "action \<Rightarrow> bool" where
  "whole_index a = (case a of SelectParse (Finite q) \<Rightarrow> is_whole q | _ \<Rightarrow> True)"

text \<open>The options of \<open>analyzeText\<close>, with every field absent when the argument is.\<close>

definition options_or_empty :: "analyze_options option \<Rightarrow> analyze_options" where
  "options_or_empty options =
     (case options of
        None \<Rightarrow>
          \<lparr>returnAllParses = None, opt_context = None, opt_engines = None, bypassCache = None\<rparr>
      | Some opts \<Rightarrow> opts)"

text \<open>Example values, after the mock result of the application shell.\<close>

definition mock_parse :: "string \<Rightarrow> rat \<Rightarrow> ParseTree" where
  "mock_parse pid c =
     \<lparr>parse_id = pid, pt_confidence = c, sandhi_groups = [], is_selected = False\<rparr>"

definition mock_tree :: "ParseTree list \<Rightarrow> rat \<Rightarrow> bool \<Rightarrow> AnalysisTree" where
  "mock_tree f c review =
     \<lparr>sentence_id = ''mock-123'', original_text = ''rAmaH gacCati'',
      normalized_slp1 = ''rAmaH gacCati'',
      scripts = \<lparr>devanagari = ''rAmaH gacCati'', iast = ''rAmaH gacCati'',
                 slp1 = ''rAmaH gacCati'', itrans = None\<rparr>,
      parse_forest = f,
      confidence = \<lparr>overall = c, engine_agreement = 9 / 10, disambiguation_score = None\<rparr>,
      at_mode = ''production'', cached_at = None, cache_tier = None,
      needs_human_review = review, engine_details = None\<rparr>"

definition three_parses :: AnalysisTree where
  "three_parses =
     mock_tree [mock_parse ''p1'' (9 / 10), mock_parse ''p2'' (1 / 2), mock_parse ''p3'' (1 / 10)]
       (9 / 10) False"

definition demo_actions :: "action list" where
  "demo_actions =
     [SetResult three_parses, NextParse, NextParse, NextParse, SelectParse (Finite 7),
      SelectParse (Finite (- 1)), SelectParse NaN, PreviousParse]"

definition fractional_select :: "action list" where
  "fractional_select = [SetResult three_parses, SelectParse (Finite (3 / 2))]"

definition fractional_select_back :: "action list" where
  "fractional_select_back =
     [SetResult three_parses, SelectParse (Finite (3 / 2)), PreviousParse, PreviousParse]"

definition demo_events :: "ui_event list" where
  "demo_events =
     [EditText ''  '', ClickAnalyze, EditText '' rAmaH '', StoreAction (SetLoading True),
      Keydown \<lparr>key = ''Enter'', shiftKey = False\<rparr>, StoreAction (SetLoading False),
      Keydown \<lparr>key = ''Enter'', shiftKey = True\<rparr>, ChooseMode Academic,
      Keydown \<lparr>key = ''Enter'', shiftKey = False\<rparr>]"

definition demo_store :: store where
  "demo_store = initial_store\<lparr>inputText := '' rAmaH '', mode := Academic\<rparr>"

definition transport_down :: transport where
  "transport_down path body =
     Inl \<lparr>ax_message = ''Network Error'', ax_status = None, ax_detail = None\<rparr>"

definition transport_mock :: transport where
  "transport_mock path body = Inr (mock_tree [mock_parse ''p1'' (92 / 100)] (92 / 100) False)"

definition demo_app :: app where
  "demo_app =
     \<lparr>app_store = setResult (mock_tree [] (1 / 2) True) initial_store, selectedNode = None\<rparr>"

text \<open>An example of \<open>locate\<close>: the string is the identifier of the parse.\<close>

fun locate_by_id :: "string \<Rightarrow> ParseTree list \<Rightarrow> nat option" where
  "locate_by_id sp [] = None"
| "locate_by_id sp (p # ps) =
     (if parse_id p = sp then Some 0 else map_option Suc (locate_by_id sp ps))"

definition pending_tree :: AnalysisTree where
  "pending_tree = mock_tree [mock_parse ''p1'' (45 / 100), mock_parse ''p2'' (45 / 100)] (45 / 100) True"

definition resolved_tree :: AnalysisTree where
  "resolved_tree =
     mock_tree [mock_parse ''p1'' (45 / 100), (mock_parse ''p2'' (45 / 100))\<lparr>is_selected := True\<rparr>]
       (45 / 100) False"

definition opts_all :: analyze_options where
  "opts_all =
     \<lparr>returnAllParses = Some True, opt_context = None, opt_engines = None, bypassCache = None\<rparr>"

definition demo_word :: "string \<Rightarrow> string \<Rightarrow> BaseWord" where
  "demo_word l sf =
     \<lparr>word_id = [], lemma_form = l, bw_surface_form = sf, bw_scripts = None, morphology = None,
      meanings = [], bw_dhatu = None, bw_confidence = 1\<rparr>"

definition demo_groups :: "SandhiGroup list" where
  "demo_groups =
     [\<lparr>group_id = ''g0'', surface_form = ''rAmaH'', base_words = [demo_word ''rAma'' ''rAmaH'']\<rparr>,
      \<lparr>group_id = ''g1'', surface_form = ''gacCati'',
        base_words = [demo_word ''gam'' ''gacCati'']\<rparr>]"

definition demo_candidate :: "rat \<Rightarrow> CandidateParse" where
  "demo_candidate c = \<lparr>cp_groups = demo_groups, cp_confidence = c, cp_votes = []\<rparr>"

text \<open>The documented trust weights, with the third engine timing out.\<close>

definition demo_runs :: "engine_run list" where
  "demo_runs =
     [(''vidyut'', 35 / 100, EngineResult [demo_candidate (9 / 10)]),
      (''dharmamitra'', 40 / 100, EngineResult [demo_candidate (8 / 10)]),
      (''heritage'', 25 / 100, EngineFailure ''timeout'')]"

definition dead_runs :: "engine_run list" where
  "dead_runs =
     [(''vidyut'', 35 / 100, EngineFailure ''unreachable''),
      (''dharmamitra'', 40 / 100, EngineFailure ''timeout''),
      (''heritage'', 25 / 100, EngineFailure ''malformed'')]"

definition demo_merged :: CandidateParse where
  "demo_merged =
     \<lparr>cp_groups = demo_groups, cp_confidence = 127 / 150,
      cp_votes = [(''vidyut'', 9 / 10), (''dharmamitra'', 8 / 10)]\<rparr>"

definition demo_memory :: tier where
  "demo_memory = \<lparr>policy = MemoryLRU 2, entries = []\<rparr>"

definition demo_slower :: "tier list" where
  "demo_slower = [\<lparr>policy = SharedTTL 10, entries = []\<rparr>, \<lparr>policy = DurableStore, entries = []\<rparr>]"

definition demo_pipeline :: "CandidateParse list \<Rightarrow> disambiguation" where
  "demo_pipeline f = \<lparr>final_state = RESOLVED, selected_index = Some 0, provenance = ''rules''\<rparr>"

definition demo_request :: AnalysisRequest where
  "demo_request =
     \<lparr>ar_text = ''rAmaH gacCati'', ar_mode = Production, ar_context = None, ar_engines = None,
      ar_bypass_cache = None\<rparr>"

definition demo_result :: AnalysisResult where
  "demo_result =
     \<lparr>ar_request = (''rAmaH gacCati'', Production), ar_forest = [demo_merged],
      ar_confidence = 127 / 150, ar_selected = Some 0, ar_cache_tier = None,
      ar_provenance = ''rules'', ar_needs_human_review = False\<rparr>"

section \<open>A fact about lists\<close>

lemma find_SomeD: "find P xs = Some x \<Longrightarrow> P x \<and> x \<in> set xs"
  by (induction xs) (auto split: if_splits)

section \<open>The store: parse navigation\<close>

lemma is_whole_0: "is_whole 0"
  by (simp add: is_whole_def)

lemma is_whole_add1: "is_whole q \<Longrightarrow> is_whole (q + 1)"
  by (simp add: is_whole_def)

lemma is_whole_diff1: "is_whole q \<Longrightarrow> is_whole (q - 1)"
  by (simp add: is_whole_def)

lemma whole_pos_ge1: "is_whole q \<Longrightarrow> 0 < q \<Longrightarrow> 1 \<le> q"
proof -
  assume w: "is_whole q" and p: "0 < q"
  from w have q: "q = of_int \<lfloor>q\<rfloor>" by (simp add: is_whole_def)
  with p have "(0::rat) < of_int \<lfloor>q\<rfloor>" by simp
  then have "0 < \<lfloor>q\<rfloor>" by (simp only: of_int_0_less_iff)
  then have "1 \<le> \<lfloor>q\<rfloor>" by simp
  then have "(1::rat) \<le> of_int \<lfloor>q\<rfloor>" by (simp only: of_int_1_le_iff)
  with q show "1 \<le> q" by simp
qed

lemma store_ok_initial: "store_ok initial_store"
  by (simp add: store_ok_def initial_store_def is_whole_0)

lemma store_ok_nextParse: "store_ok s \<Longrightarrow> store_ok (nextParse s)"
  by (auto simp: store_ok_def nextParse_def is_whole_add1 split: option.splits)

lemma store_ok_previousParse: "store_ok s \<Longrightarrow> store_ok (previousParse s)"
  by (auto simp: store_ok_def previousParse_def is_whole_diff1 split: option.splits
      dest: whole_pos_ge1)

lemma store_ok_selectParse:
  "store_ok s \<Longrightarrow> whole_index (SelectParse i) \<Longrightarrow> store_ok (selectParse i s)"
  by (cases i) (auto simp: store_ok_def selectParse_def whole_index_def split: option.splits)

lemma store_ok_apply: "store_ok s \<Longrightarrow> whole_index a \<Longrightarrow> store_ok (apply_action a s)"
proof (cases a)
  case NextParse
  assume "store_ok s"
  with NextParse show ?thesis by (simp add: store_ok_nextParse)
next
  case PreviousParse
  assume "store_ok s"
  with PreviousParse show ?thesis by (simp add: store_ok_previousParse)
next
  case (SelectParse i)
  assume "store_ok s" and "whole_index a"
  with SelectParse show ?thesis by (simp add: store_ok_selectParse)
qed (auto simp: store_ok_def setInputText_def setMode_def setDisplayScript_def setResult_def
      setLoading_def setError_def reset_def is_whole_0 split: option.splits)

lemma store_ok_run: "store_ok s \<Longrightarrow> list_all whole_index acts \<Longrightarrow> store_ok (run_actions acts s)"
  by (induction acts arbitrary: s) (simp_all add: store_ok_apply)

text \<open>
  As long as every number handed to \<open>selectParse\<close> is whole (or not finite), the parse
  index stays inside the forest: it is whole, at least 0 and, for a non-empty forest,
  less than its length, and \<open>currentParse\<close> is a parse of the forest, or \<open>null\<close>
  exactly when there is no result or the forest is empty.
\<close>

lemma whole_indices_stay_in_bounds:
  assumes "list_all whole_index acts"
  shows "0 \<le> currentParseIndex (run_actions acts initial_store)
   \<and> (\<forall>r. result (run_actions acts initial_store) = Some r \<and> parse_forest r \<noteq> []
          \<longrightarrow> currentParseIndex (run_actions acts initial_store) < of_nat (length (parse_forest r)))
   \<and> currentParse (run_actions acts initial_store) \<noteq> Undefined
   \<and> (currentParse (run_actions acts initial_store) = Null
        \<longleftrightarrow> (case result (run_actions acts initial_store) of
               None \<Rightarrow> True
             | Some r \<Rightarrow> parse_forest r = []))"
proof -
  have ok: "store_ok (run_actions acts initial_store)"
    by (rule store_ok_run [OF store_ok_initial assms])
  then show ?thesis
    by (auto simp: store_ok_def currentParse_def array_get_def split: option.splits)
qed

lemma demo_actions_run:
  "run_actions demo_actions initial_store
     = initial_store\<lparr>result := Some three_parses, currentParseIndex := 1\<rparr>"
  by (simp add: demo_actions_def initial_store_def setResult_def nextParse_def
        previousParse_def selectParse_def three_parses_def mock_tree_def)

lemma demo_actions_in_bounds:
  "list_all whole_index demo_actions
   \<and> currentParseIndex (run_actions demo_actions initial_store) = 1
   \<and> currentParse (run_actions demo_actions initial_store) = Value (mock_parse ''p2'' (1 / 2))"
  using whole_indices_stay_in_bounds [of demo_actions]
  by (simp add: demo_actions_run currentParse_def array_get_def three_parses_def mock_tree_def
        is_whole_def, simp add: demo_actions_def whole_index_def is_whole_def)

lemma not_whole_three_halves: "is_whole (3 / 2) = False"
proof -
  have "\<lfloor>(3 / 2)::rat\<rfloor> = 1" by (rule floor_unique) simp_all
  then show ?thesis by (simp add: is_whole_def)
qed

lemma not_whole_minus_half: "is_whole (- (1 / 2)) = False"
proof -
  have "\<lfloor>(- (1 / 2))::rat\<rfloor> = - 1" by (rule floor_unique) simp_all
  then show ?thesis by (simp add: is_whole_def)
qed

text \<open>
  C8 fails on the store as written: \<open>selectParse\<close> tests its argument against 0 and
  the length of the forest and not for being whole. With three parses in the forest,
  \<open>selectParse(1.5)\<close> passes the test and is stored; \<open>currentParse\<close> then reads the
  forest at 1.5 and is \<open>undefined\<close>, neither a parse nor \<open>null\<close>; two calls of
  \<open>previousParse\<close> after it take \<open>currentParseIndex\<close> to -0.5, below 0.
\<close>

theorem selectParse_fractional_index:
  "result (run_actions fractional_select initial_store) = Some three_parses
   \<and> length (parse_forest three_parses) = 3
   \<and> currentParseIndex (run_actions fractional_select initial_store) = 3 / 2
   \<and> currentParse (run_actions fractional_select initial_store) = Undefined
   \<and> result (run_actions fractional_select_back initial_store) = Some three_parses
   \<and> currentParseIndex (run_actions fractional_select_back initial_store) = - (1 / 2)
   \<and> currentParseIndex (run_actions fractional_select_back initial_store) < 0
   \<and> currentParse (run_actions fractional_select_back initial_store) = Undefined"
  by (simp add: fractional_select_def fractional_select_back_def initial_store_def
        setResult_def selectParse_def previousParse_def currentParse_def array_get_def
        not_whole_three_halves not_whole_minus_half three_parses_def mock_tree_def)

section \<open>The application shell: a failed analysis\<close>

lemma settle_throw:
  "result (app_store (App_handleAnalyze_settle (Inl e) a)) = result (app_store a)
   \<and> error (app_store (App_handleAnalyze_settle (Inl e) a)) \<noteq> None
   \<and> \<not> isLoading (app_store (App_handleAnalyze_settle (Inl e) a))"
  by (cases e) (simp_all add: App_handleAnalyze_settle_def setError_def setLoading_def Let_def)

lemma settle_ok:
  "result (app_store (App_handleAnalyze_settle (Inr r) a)) = Some r
   \<and> error (app_store (App_handleAnalyze_settle (Inr r) a)) = None
   \<and> \<not> isLoading (app_store (App_handleAnalyze_settle (Inr r) a))"
  by (simp add: App_handleAnalyze_settle_def setResult_def setLoading_def Let_def)

lemma begin_result: "result (app_store (App_handleAnalyze_begin a)) = result (app_store a)"
  by (simp add: App_handleAnalyze_begin_def setError_def setLoading_def)

text \<open>
  C9: if the call of \<open>analyzeText\<close> inside \<open>handleAnalyze\<close> throws, the result of the
  store is left as it was, the error of the store is set to a message (it is not
  \<open>null\<close>), and \<open>isLoading\<close> is false when the handler completes; if the call
  succeeds, the error is \<open>null\<close>, the result is the new analysis and \<open>isLoading\<close> is
  false.
\<close>

theorem handleAnalyze_error_handling:
  "case analyze_call t m of
     Inl e \<Rightarrow>
       result (app_store (App_handleAnalyze analyze_call t m a)) = result (app_store a)
       \<and> error (app_store (App_handleAnalyze analyze_call t m a)) \<noteq> None
       \<and> \<not> isLoading (app_store (App_handleAnalyze analyze_call t m a))
   | Inr r \<Rightarrow>
       error (app_store (App_handleAnalyze analyze_call t m a)) = None
       \<and> result (app_store (App_handleAnalyze analyze_call t m a)) = Some r
       \<and> \<not> isLoading (app_store (App_handleAnalyze analyze_call t m a))"
  by (cases "analyze_call t m")
     (simp_all add: App_handleAnalyze_def settle_throw settle_ok begin_result)

text \<open>
  With the transport down, the client throws an \<open>ApiError\<close> and the result shown
  before stays; with a transport that answers, the error is cleared.
\<close>

theorem handleAnalyze_error_handling_witness:
  "result (app_store (App_handleAnalyze (\<lambda>t m. analyzeText transport_down t (Some m) None)
        ''rAmaH'' Production demo_app)) = Some (mock_tree [] (1 / 2) True)
   \<and> error (app_store (App_handleAnalyze (\<lambda>t m. analyzeText transport_down t (Some m) None)
        ''rAmaH'' Production demo_app)) = Some ''Network Error''
   \<and> isLoading (app_store (App_handleAnalyze (\<lambda>t m. analyzeText transport_down t (Some m) None)
        ''rAmaH'' Production demo_app)) = False
   \<and> error (app_store (App_handleAnalyze (\<lambda>t m. analyzeText transport_mock t (Some m) None)
        ''rAmaH'' Production demo_app)) = None"
  using handleAnalyze_error_handling
      [of "\<lambda>t m. analyzeText transport_down t (Some m) None" "''rAmaH''" Production demo_app]
    handleAnalyze_error_handling
      [of "\<lambda>t m. analyzeText transport_mock t (Some m) None" "''rAmaH''" Production demo_app]
  by (simp add: analyzeText_def api_post_def transport_down_def transport_mock_def
        interceptor_def truthy_def demo_app_def setResult_def initial_store_def
        App_handleAnalyze_def App_handleAnalyze_begin_def App_handleAnalyze_settle_def
        setError_def setLoading_def)

section \<open>The input bar: when the analyze event is emitted\<close>

lemma emit_guard:
  "InputBar_emit ev s = Some (t, m) \<Longrightarrow>
     \<not> isLoading s \<and> trim (inputText s) \<noteq> [] \<and> t = inputText s \<and> m = mode s"
  by (cases ev)
     (auto simp: InputBar_handleKeydown_def InputBar_handleAnalyze_def canAnalyze_def
        split: if_splits)

text \<open>
  C10: the input bar never emits the analyze event while \<open>isLoading\<close> is true or while
  the input text is empty after trimming, whether the event comes from a click on the
  Analyze button or from the Enter key; when it emits, the payload is the input text
  and the mode of the store at that moment. This holds for every emission in every
  sequence of events, from any store.
\<close>

theorem InputBar_emits_only_when_allowed:
  "(s, t, m) \<in> set (InputBar_run evs s0) \<Longrightarrow>
     \<not> isLoading s \<and> trim (inputText s) \<noteq> [] \<and> t = inputText s \<and> m = mode s"
proof (induction evs arbitrary: s0)
  case Nil
  then show ?case by simp
next
  case (Cons ev evs)
  show ?case
  proof (cases "InputBar_emit ev s0")
    case None
    with Cons.prems have "(s, t, m) \<in> set (InputBar_run evs (InputBar_update ev s0))"
      by simp
    then show ?thesis by (rule Cons.IH)
  next
    case (Some payload)
    with Cons.prems have
      "(s, t, m) = (s0, payload) \<or> (s, t, m) \<in> set (InputBar_run evs (InputBar_update ev s0))"
      by simp
    then show ?thesis
    proof
      assume "(s, t, m) = (s0, payload)"
      with Some have "InputBar_emit ev s = Some (t, m)" by simp
      then show ?thesis by (rule emit_guard)
    next
      assume "(s, t, m) \<in> set (InputBar_run evs (InputBar_update ev s0))"
      then show ?thesis by (rule Cons.IH)
    qed
  qed
qed

lemma demo_events_run:
  "InputBar_run demo_events initial_store = [(demo_store, '' rAmaH '', Academic)]"
  by (simp add: demo_events_def demo_store_def initial_store_def InputBar_handleAnalyze_def
        InputBar_handleKeydown_def canAnalyze_def trim_def js_whitespace_def setLoading_def)

text \<open>
  A click on blank input, Enter while loading and Shift+Enter emit nothing; the last
  Enter emits the text as typed and the mode chosen.
\<close>

theorem InputBar_emits_only_when_allowed_witness:
  "InputBar_run demo_events initial_store = [(demo_store, '' rAmaH '', Academic)]
   \<and> isLoading demo_store = False \<and> trim (inputText demo_store) = ''rAmaH''
   \<and> inputText demo_store = '' rAmaH '' \<and> mode demo_store = Academic"
proof -
  have m: "(demo_store, '' rAmaH '', Academic) \<in> set (InputBar_run demo_events initial_store)"
    by (simp add: demo_events_run)
  from InputBar_emits_only_when_allowed [OF m] show ?thesis
    by (simp add: demo_events_run demo_store_def trim_def js_whitespace_def)
qed

section \<open>Confidence bands\<close>

text \<open>
  C4 as stated fails: a confidence of 0.85 is in the medium band of the specification
  and the UI classifies it as high (green); a confidence of 0.6 is in the low band of
  the specification and the UI classifies it as medium (yellow).
\<close>

theorem confidence_bands_counterexample:
  "getConfidenceClass (85 / 100) = ''high'' \<and> spec_confidence_band (85 / 100) = Some ''medium''
   \<and> confidence_badge (85 / 100) = [''high''] \<and> getConfidenceColor (85 / 100) = ''#22c55e''
   \<and> getConfidenceClass (6 / 10) = ''medium'' \<and> spec_confidence_band (6 / 10) = Some ''low''
   \<and> confidence_badge (6 / 10) = [''medium''] \<and> getConfidenceColor (6 / 10) = ''#eab308''"
  by (simp add: getConfidenceClass_def spec_confidence_band_def confidence_badge_def
        getConfidenceColor_def)

text \<open>
  C4, amended: wherever the UI classifies a confidence into bands, the band is high
  (green) from 0.8, medium (yellow) from 0.5 and below 0.8, and low (red) below 0.5;
  the badge of the result header, the class of the node detail and the colour of the
  parse tree agree on these boundaries.
\<close>

theorem ui_confidence_bands:
  "(getConfidenceClass c = ''high'' \<longleftrightarrow> 8 / 10 \<le> c)
   \<and> (getConfidenceClass c = ''medium'' \<longleftrightarrow> 5 / 10 \<le> c \<and> c < 8 / 10)
   \<and> (getConfidenceClass c = ''low'' \<longleftrightarrow> c < 5 / 10)
   \<and> confidence_badge c = [getConfidenceClass c]
   \<and> (getConfidenceColor c = ''#22c55e'' \<longleftrightarrow> getConfidenceClass c = ''high'')
   \<and> (getConfidenceColor c = ''#eab308'' \<longleftrightarrow> getConfidenceClass c = ''medium'')
   \<and> (getConfidenceColor c = ''#ef4444'' \<longleftrightarrow> getConfidenceClass c = ''low'')"
  by (auto simp: getConfidenceClass_def confidence_badge_def getConfidenceColor_def)

theorem ui_confidence_bands_witness:
  "getConfidenceClass (8 / 10) = ''high'' \<and> confidence_badge (8 / 10) = [''high'']
   \<and> getConfidenceColor (8 / 10) = ''#22c55e''"
  using ui_confidence_bands [of "8 / 10"] by simp

section \<open>The review flag\<close>

text \<open>
  C5 as stated fails: a result that is flagged for review, here with an overall
  confidence of 0.3 and every optional field absent, carries no reason among its
  fields; what the user is shown is the fixed badge, which is none of the reasons of
  the specification.
\<close>

theorem review_reason_counterexample:
  "mock_tree [] (3 / 10) True =
     \<lparr>sentence_id = ''mock-123'', original_text = ''rAmaH gacCati'',
      normalized_slp1 = ''rAmaH gacCati'',
      scripts = \<lparr>devanagari = ''rAmaH gacCati'', iast = ''rAmaH gacCati'',
                 slp1 = ''rAmaH gacCati'', itrans = None\<rparr>,
      parse_forest = [],
      confidence = \<lparr>overall = 3 / 10, engine_agreement = 9 / 10, disambiguation_score = None\<rparr>,
      at_mode = ''production'', cached_at = None, cache_tier = None,
      needs_human_review = True, engine_details = None\<rparr>
   \<and> needs_human_review (mock_tree [] (3 / 10) True)
   \<and> review_badge (mock_tree [] (3 / 10) True) = Some ''Needs Review''
   \<and> ''Needs Review'' \<notin> set spec_review_reasons"
  by (simp add: mock_tree_def review_badge_def spec_review_reasons_def)

text \<open>
  C5, amended: every analysis result that reaches the user includes the
  \<open>needs_human_review\<close> flag; when the flag is true the user is shown the badge
  "Needs Review" and otherwise none, and this does not depend on the confidence, the
  parse forest, the engine details or the cache tier of the result.
\<close>

theorem review_badge_flag_only:
  "(review_badge r = Some ''Needs Review'' \<longleftrightarrow> needs_human_review r)
   \<and> (review_badge r = None \<longleftrightarrow> \<not> needs_human_review r)
   \<and> review_badge (r\<lparr>confidence := c, parse_forest := f, engine_details := d, cache_tier := ct\<rparr>)
       = review_badge r"
  by (simp add: review_badge_def)

theorem review_badge_flag_only_witness:
  "review_badge (mock_tree [] (3 / 10) True) = Some ''Needs Review''
   \<and> review_badge (mock_tree [mock_parse ''p1'' (99 / 100)] (99 / 100) True) = Some ''Needs Review''
   \<and> review_badge (mock_tree [] (3 / 10) False) = None"
  using review_badge_flag_only [of "mock_tree [] (3 / 10) True"]
    review_badge_flag_only [of "mock_tree [mock_parse ''p1'' (99 / 100)] (99 / 100) True"]
    review_badge_flag_only [of "mock_tree [] (3 / 10) False"]
  by (simp add: mock_tree_def)

section \<open>The requests of the client\<close>

text \<open>
  C6 as stated fails: the selected parse that the client sends is a string, here the
  parse identifier \<open>p1\<close>, not a number.
\<close>

theorem selected_parse_not_numeric_counterexample:
  "json_field ''selected_parse''
     (DisambiguateRequest_json (saveDisambiguation_request ''mock-123'' ''p1''))
     = Some (JStr ''p1'')
   \<and> is_JNum (JStr ''p1'') = False"
  by (simp add: json_field_def DisambiguateRequest_json_def saveDisambiguation_request_def
        is_JNum_def)

lemma filter_eq_index: "i < n \<Longrightarrow> filter (\<lambda>j. j = i) [0..<n] = [i]"
proof (induction n)
  case 0
  then show ?case by simp
next
  case (Suc n)
  show ?case
  proof (cases "i < n")
    case True
    with Suc.IH show ?thesis by simp
  next
    case False
    with Suc.prems have "i = n" by simp
    then have "filter (\<lambda>j. j = i) [0..<n] = []" by (auto simp: filter_empty_conv)
    with \<open>i = n\<close> show ?thesis by simp
  qed
qed

lemma record_choice_selected:
  assumes "i < length (parse_forest prior)"
  shows "filter is_selected (parse_forest (record_choice i prior))
           = [(parse_forest prior ! i)\<lparr>is_selected := True\<rparr>]"
proof -
  have "filter is_selected (parse_forest (record_choice i prior))
          = map (\<lambda>j. (parse_forest prior ! j)\<lparr>is_selected := (j = i)\<rparr>)
              (filter (\<lambda>j. j = i) [0..<length (parse_forest prior)])"
    by (simp add: record_choice_def filter_map comp_def)
  with filter_eq_index [OF assms] show ?thesis by simp
qed

lemma record_choice_resolved:
  "i < length (parse_forest prior) \<Longrightarrow> resolved (record_choice i prior)"
  by (simp add: resolved_def record_choice_selected) (simp add: record_choice_def)

lemma record_choice_parse_ids:
  "map parse_id (parse_forest (record_choice i prior)) = map parse_id (parse_forest prior)"
proof -
  let ?f = "parse_forest prior"
  have "map parse_id (parse_forest (record_choice i prior))
          = map parse_id (map (\<lambda>j. ?f ! j) [0..<length ?f])"
    by (simp add: record_choice_def comp_def)
  then show ?thesis by (simp only: map_nth)
qed

text \<open>
  C6, amended: the human-override completion operation is
  \<open>resolve(sentence_id, selected_parse)\<close>, which the client calls as
  \<open>saveDisambiguation\<close>: it takes a sentence identifier together with the selected
  parse as a string (not a numeric index), and returns a new RESOLVED result version
  (it does not mutate the prior result in place). Here, for a sentence that the server
  knows and a string that names a parse of its forest: both fields of the request are
  strings; the result returned is RESOLVED, with the named parse the one selected and
  with the sentence identifier and the parses of the prior result; and the server
  keeps every earlier version, the prior result among them, as it was, with the new
  version in front.
\<close>

theorem saveDisambiguation_resolves:
  assumes known: "find (\<lambda>t. sentence_id t = sid) vs = Some prior"
    and named: "locate sp (parse_forest prior) = Some i"
    and inside: "i < length (parse_forest prior)"
  shows "json_field ''sentence_id'' (DisambiguateRequest_json (saveDisambiguation_request sid sp))
           = Some (JStr sid)
    \<and> json_field ''selected_parse'' (DisambiguateRequest_json (saveDisambiguation_request sid sp))
           = Some (JStr sp)
    \<and> saveDisambiguation (server_transport locate vs) sid sp = Inr (record_choice i prior)
    \<and> resolved (record_choice i prior)
    \<and> filter is_selected (parse_forest (record_choice i prior))
         = [(parse_forest prior ! i)\<lparr>is_selected := True\<rparr>]
    \<and> sentence_id (record_choice i prior) = sid
    \<and> map parse_id (parse_forest (record_choice i prior)) = map parse_id (parse_forest prior)
    \<and> snd (server_disambiguate locate vs ''/api/v1/disambiguate''
              (DisambiguateRequest_json (saveDisambiguation_request sid sp)))
         = record_choice i prior # vs
    \<and> prior \<in> set vs"
proof -
  let ?body = "DisambiguateRequest_json (saveDisambiguation_request sid sp)"
  have f1: "json_field ''sentence_id'' ?body = Some (JStr sid)"
    and f2: "json_field ''selected_parse'' ?body = Some (JStr sp)"
    by (simp_all add: json_field_def DisambiguateRequest_json_def saveDisambiguation_request_def)
  have res: "resolve locate vs sid sp = (Inr (record_choice i prior), record_choice i prior # vs)"
    using known named inside by (simp add: resolve_def)
  have srv: "server_disambiguate locate vs ''/api/v1/disambiguate'' ?body
               = (Inr (record_choice i prior), record_choice i prior # vs)"
    by (simp add: server_disambiguate_def f1 f2 res)
  have call: "saveDisambiguation (server_transport locate vs) sid sp = Inr (record_choice i prior)"
    by (simp add: saveDisambiguation_def api_post_def server_transport_def srv)
  from known have mem: "prior \<in> set vs" and sid: "sentence_id prior = sid"
    by (auto dest: find_SomeD)
  have sid': "sentence_id (record_choice i prior) = sid"
    using sid by (simp add: record_choice_def)
  from f1 f2 call record_choice_resolved [OF inside] record_choice_selected [OF inside] sid'
    record_choice_parse_ids [of i prior] srv mem
  show ?thesis by simp
qed

lemma pending_choice: "record_choice (Suc 0) pending_tree = resolved_tree"
  by (simp add: record_choice_def pending_tree_def resolved_tree_def mock_tree_def
        mock_parse_def upt_rec)

text \<open>
  A pending result with two parses at confidence 0.45, and the human choice of the
  second: the client gets the version with \<open>p2\<close> selected and the review flag off, and
  the server keeps the pending version behind it.
\<close>

theorem saveDisambiguation_resolves_witness:
  "find (\<lambda>t. sentence_id t = ''mock-123'') [pending_tree] = Some pending_tree
   \<and> locate_by_id ''p2'' (parse_forest pending_tree) = Some 1
   \<and> length (parse_forest pending_tree) = 2
   \<and> saveDisambiguation (server_transport locate_by_id [pending_tree]) ''mock-123'' ''p2''
       = Inr resolved_tree
   \<and> needs_human_review pending_tree = True
   \<and> needs_human_review resolved_tree = False
   \<and> map is_selected (parse_forest resolved_tree) = [False, True]
   \<and> snd (server_disambiguate locate_by_id [pending_tree] ''/api/v1/disambiguate''
            (DisambiguateRequest_json (saveDisambiguation_request ''mock-123'' ''p2'')))
       = [resolved_tree, pending_tree]"
proof -
  have known: "find (\<lambda>t. sentence_id t = ''mock-123'') [pending_tree] = Some pending_tree"
    by (simp add: pending_tree_def mock_tree_def)
  have named: "locate_by_id ''p2'' (parse_forest pending_tree) = Some 1"
    by (simp add: pending_tree_def mock_tree_def mock_parse_def)
  have inside: "1 < length (parse_forest pending_tree)"
    by (simp add: pending_tree_def mock_tree_def)
  have len: "length (parse_forest pending_tree) = 2"
    by (simp add: pending_tree_def mock_tree_def)
  have flags: "needs_human_review pending_tree = True \<and> needs_human_review resolved_tree = False
      \<and> map is_selected (parse_forest resolved_tree) = [False, True]"
    by (simp add: pending_tree_def resolved_tree_def mock_tree_def mock_parse_def)
  from saveDisambiguation_resolves
         [of "''mock-123''" "[pending_tree]" pending_tree locate_by_id "''p2''" 1,
          OF known named inside]
    known named len flags
  show ?thesis by (simp add: pending_choice)
qed

text \<open>
  C7 as stated fails: the request carries a sixth field, \<open>return_all_parses\<close>. Two
  requests that agree on text, mode, context, engines and bypass flag differ in it.
\<close>

theorem analyze_request_extra_field_counterexample:
  "req_text (analyzeText_request ''rAmaH'' None (Some opts_all))
     = req_text (analyzeText_request ''rAmaH'' None None)
   \<and> req_mode (analyzeText_request ''rAmaH'' None (Some opts_all))
     = req_mode (analyzeText_request ''rAmaH'' None None)
   \<and> req_context (analyzeText_request ''rAmaH'' None (Some opts_all))
     = req_context (analyzeText_request ''rAmaH'' None None)
   \<and> req_engines (analyzeText_request ''rAmaH'' None (Some opts_all))
     = req_engines (analyzeText_request ''rAmaH'' None None)
   \<and> bypass_cache (analyzeText_request ''rAmaH'' None (Some opts_all))
     = bypass_cache (analyzeText_request ''rAmaH'' None None)
   \<and> analyzeText_request ''rAmaH'' None (Some opts_all) \<noteq> analyzeText_request ''rAmaH'' None None
   \<and> json_field ''return_all_parses''
       (AnalyzeRequest_json (analyzeText_request ''rAmaH'' None (Some opts_all)))
     = Some (JBool True)"
  by (simp add: analyzeText_request_def opts_all_def AnalyzeRequest_json_def json_field_def
        opt_field_def)

text \<open>
  C7, amended: an analyze request that the client constructs consists of the text, a
  mode drawn from production, educational and academic (production when none is
  given), and four optional fields taken from the options: the return-all-parses
  flag, the context string, the engine subset and the cache-bypass flag.
\<close>

theorem analyzeText_request_shape:
  "analyzeText_request t mode_arg options =
     \<lparr>req_text = t,
      req_mode = Some (case mode_arg of None \<Rightarrow> Production | Some m \<Rightarrow> m),
      return_all_parses = returnAllParses (options_or_empty options),
      req_context = opt_context (options_or_empty options),
      req_engines = opt_engines (options_or_empty options),
      bypass_cache = bypassCache (options_or_empty options)\<rparr>
   \<and> (\<exists>m. req_mode (analyzeText_request t mode_arg options) = Some m
            \<and> m \<in> {Production, Educational, Academic})"
proof -
  have "m \<in> {Production, Educational, Academic}" for m
    by (cases m) simp_all
  then show ?thesis
    by (cases options) (simp_all add: analyzeText_request_def options_or_empty_def)
qed

theorem analyzeText_request_shape_witness:
  "analyzeText_request ''rAmaH'' None None =
     \<lparr>req_text = ''rAmaH'', req_mode = Some Production, return_all_parses = None,
      req_context = None, req_engines = None, bypass_cache = None\<rparr>
   \<and> AnalyzeRequest_json (analyzeText_request ''rAmaH'' (Some Academic) (Some opts_all)) =
       JObj [(''text'', JStr ''rAmaH''), (''mode'', JStr ''academic''),
             (''return_all_parses'', JBool True)]"
  using analyzeText_request_shape [of "''rAmaH''" None None]
    analyzeText_request_shape [of "''rAmaH''" "Some Academic" "Some opts_all"]
  by (simp add: options_or_empty_def opts_all_def AnalyzeRequest_json_def opt_field_def
        mode_name_def)

section \<open>The combiner: redistributed weights\<close>

lemma set_insert_ranked: "set (insert_ranked c cs) = insert c (set cs)"
  by (induction cs) auto

lemma set_rank: "set (rank cs) = set cs"
  unfolding rank_def by (induction cs) (simp_all add: set_insert_ranked)

lemma in_responders:
  "(n, w, c) \<in> set (responders k runs)
     \<longleftrightarrow> (\<exists>out. (n, w, out) \<in> set runs \<and> vote_in k out = Some c)"
  unfolding responders_def by (induction runs) (auto split: option.splits)

lemma weight_split:
  "responding_weight k runs + abstained_weight k runs = sum_list (map (\<lambda>(n, w, out). w) runs)"
  unfolding responding_weight_def abstained_weight_def responders_def
  by (induction runs) (auto split: option.splits)

lemma sum_list_pos_rat:
  fixes f :: "'a \<Rightarrow> rat"
  shows "xs \<noteq> [] \<Longrightarrow> \<forall>x \<in> set xs. 0 < f x \<Longrightarrow> 0 < sum_list (map f xs)"
proof (induction xs)
  case Nil
  then show ?case by simp
next
  case (Cons a xs)
  show ?case
  proof (cases "xs = []")
    case True
    with Cons.prems show ?thesis by simp
  next
    case False
    with Cons have "0 < sum_list (map f xs)" by simp
    moreover from Cons.prems have "0 < f a" by simp
    ultimately show ?thesis by simp
  qed
qed

lemma responding_weight_pos:
  assumes pos: "\<forall>(n, w, out) \<in> set runs. 0 < w" and ne: "responders k runs \<noteq> []"
  shows "0 < responding_weight k runs"
proof -
  have "\<forall>x \<in> set (responders k runs). 0 < (\<lambda>(n, w, c). w) x"
  proof
    fix x assume x: "x \<in> set (responders k runs)"
    obtain n w c where xe: "x = (n, w, c)" by (cases x)
    with x obtain out where "(n, w, out) \<in> set runs" by (auto simp: in_responders)
    with pos have "0 < w" by auto
    with xe show "0 < (\<lambda>(n, w, c). w) x" by simp
  qed
  with ne show ?thesis unfolding responding_weight_def by (rule sum_list_pos_rat)
qed

lemma sum_weighted_votes:
  assumes "responding_weight k runs \<noteq> 0"
  shows "sum_list (map (\<lambda>(n, w, c). w) (weighted_votes k runs))
           = responding_weight k runs + abstained_weight k runs"
proof -
  define A where "A = abstained_weight k runs"
  define R where "R = responding_weight k runs"
  have gen:
    "sum_list (map (\<lambda>(n, w, c). w)
        (map (\<lambda>(n, w, c). (n, w + A * (w / R), cp_confidence c)) rs))
       = sum_list (map (\<lambda>(n, w, c). w) rs) + A * (sum_list (map (\<lambda>(n, w, c). w) rs) / R)"
    for rs :: "(string \<times> rat \<times> CandidateParse) list"
    by (induction rs) (auto simp: algebra_simps add_divide_distrib)
  have "sum_list (map (\<lambda>(n, w, c). w) (weighted_votes k runs)) = R + A * (R / R)"
    unfolding weighted_votes_def using gen [of "responders k runs"]
    by (simp add: A_def R_def responding_weight_def)
  with assms show ?thesis by (simp add: A_def R_def)
qed

lemma find_key_exists:
  "x \<in> set xs \<Longrightarrow> \<exists>c. find (\<lambda>c. structure_key c = structure_key x) xs = Some c"
  by (induction xs) auto

lemma responders_of_group_key:
  assumes "k \<in> set (group_keys runs)"
  shows "responders k runs \<noteq> []"
proof -
  from assms obtain n w out x where run: "(n, w, out) \<in> set runs"
    and x: "x \<in> set (candidates_of out)" and k: "k = structure_key x"
    unfolding group_keys_def by auto
  from find_key_exists [OF x] k obtain c where "vote_in k out = Some c"
    by (auto simp: vote_in_def)
  with run have "(n, w, c) \<in> set (responders k runs)" by (auto simp: in_responders)
  then show ?thesis by auto
qed

lemma responders_key:
  assumes "(n, w, c) \<in> set (responders k runs)"
  shows "structure_key c = k"
proof -
  from assms obtain out where "vote_in k out = Some c" by (auto simp: in_responders)
  then show ?thesis unfolding vote_in_def by (auto dest: find_SomeD)
qed

lemma merge_group_key:
  assumes "k \<in> set (group_keys runs)"
  shows "structure_key (merge_group runs k) = k"
proof -
  from responders_of_group_key [OF assms] obtain n w c rest
    where r: "responders k runs = (n, w, c) # rest"
    by (cases "responders k runs") auto
  then have "(n, w, c) \<in> set (responders k runs)" by simp
  then have "structure_key c = k" by (rule responders_key)
  with r show ?thesis by (simp add: merge_group_def structure_key_def)
qed

text \<open>
  C1: when the configured trust weights are positive and sum to 1 and at least one
  engine responds, the combiner does not signal \<open>TotalEngineFailure\<close>, and for every
  candidate of the forest the weights used for its aggregate confidence (the weights
  of the engines that have a candidate in its group, each increased by its
  proportional share of the weight of the abstaining engines) sum to exactly 1; the
  aggregate confidence is the sum of the confidences of these engines under these
  weights. The case of exactly one failed engine is an instance.
\<close>

theorem combiner_weights_sum_to_one:
  assumes total: "sum_list (map (\<lambda>(n, w, out). w) runs) = 1"
    and pos: "\<forall>(n, w, out) \<in> set runs. 0 < w"
    and some: "\<exists>(n, w, out) \<in> set runs. responded out"
  shows "\<not> total_engine_failure (combine runs)
    \<and> (\<forall>p \<in> set (forest (combine runs)).
          sum_list (map (\<lambda>(n, w, c). w) (weighted_votes (structure_key p) runs)) = 1
          \<and> cp_confidence p
              = sum_list (map (\<lambda>(n, w, c). w * c) (weighted_votes (structure_key p) runs)))"
proof -
  from some have ex: "list_ex (\<lambda>(n, w, out). responded out) runs"
    by (auto simp: list_ex_iff)
  then have comb: "combine runs =
      \<lparr>forest = rank (map (merge_group runs) (group_keys runs)), total_engine_failure = False\<rparr>"
    by (simp add: combine_def)
  have "sum_list (map (\<lambda>(n, w, c). w) (weighted_votes (structure_key p) runs)) = 1
        \<and> cp_confidence p
            = sum_list (map (\<lambda>(n, w, c). w * c) (weighted_votes (structure_key p) runs))"
    if p: "p \<in> set (forest (combine runs))" for p
  proof -
    from p comb obtain k where k: "k \<in> set (group_keys runs)" and pk: "p = merge_group runs k"
      by (auto simp: set_rank)
    have key: "structure_key p = k" using merge_group_key [OF k] pk by simp
    have "0 < responding_weight k runs"
      by (rule responding_weight_pos [OF pos responders_of_group_key [OF k]])
    then have "sum_list (map (\<lambda>(n, w, c). w) (weighted_votes k runs)) = 1"
      using sum_weighted_votes [of k runs] weight_split [of k runs] total by simp
    moreover have "cp_confidence p = sum_list (map (\<lambda>(n, w, c). w * c) (weighted_votes k runs))"
      by (simp add: pk merge_group_def aggregate_confidence_def)
    ultimately show ?thesis by (simp add: key)
  qed
  with comb show ?thesis by simp
qed

lemma demo_key: "structure_key (demo_candidate c) = [[''rAma''], [''gam'']]"
  by (simp add: structure_key_def demo_candidate_def demo_groups_def demo_word_def)

lemma demo_merged_key: "structure_key demo_merged = [[''rAma''], [''gam'']]"
  by (simp add: structure_key_def demo_merged_def demo_groups_def demo_word_def)

lemma demo_responders:
  "responders [[''rAma''], [''gam'']] demo_runs =
     [(''vidyut'', 35 / 100, demo_candidate (9 / 10)),
      (''dharmamitra'', 40 / 100, demo_candidate (8 / 10))]"
  by (simp add: responders_def demo_runs_def vote_in_def candidates_of_def demo_key)

lemma demo_abstained: "abstained_weight [[''rAma''], [''gam'']] demo_runs = 25 / 100"
  by (simp add: abstained_weight_def demo_runs_def vote_in_def candidates_of_def demo_key)

lemma demo_weighted:
  "weighted_votes [[''rAma''], [''gam'']] demo_runs =
     [(''vidyut'', 7 / 15, 9 / 10), (''dharmamitra'', 8 / 15, 8 / 10)]"
  by (simp add: weighted_votes_def responding_weight_def demo_responders demo_abstained
        demo_candidate_def)

lemma demo_group_keys: "group_keys demo_runs = [[[''rAma''], [''gam'']]]"
  by (simp add: group_keys_def demo_runs_def candidates_of_def demo_key)

lemma demo_combine:
  "combine demo_runs = \<lparr>forest = [demo_merged], total_engine_failure = False\<rparr>"
proof -
  have "list_ex (\<lambda>(n, w, out). responded out) demo_runs"
    by (simp add: demo_runs_def responded_def)
  then show ?thesis
    by (simp add: combine_def demo_group_keys rank_def merge_group_def demo_responders
          aggregate_confidence_def demo_weighted demo_candidate_def demo_merged_def)
qed

text \<open>
  With the documented weights 0.35, 0.40 and 0.25 and the third engine timing out, the
  two remaining engines vote with weights 7/15 and 8/15, and confidences 0.9 and 0.8
  give the aggregate 127/150.
\<close>

theorem combiner_weights_sum_to_one_witness:
  "sum_list (map (\<lambda>(n, w, out). w) demo_runs) = 1
   \<and> list_all (\<lambda>(n, w, out). 0 < w) demo_runs
   \<and> list_ex (\<lambda>(n, w, out). responded out) demo_runs
   \<and> combine demo_runs = \<lparr>forest = [demo_merged], total_engine_failure = False\<rparr>
   \<and> weighted_votes (structure_key demo_merged) demo_runs
       = [(''vidyut'', 7 / 15, 9 / 10), (''dharmamitra'', 8 / 15, 8 / 10)]
   \<and> sum_list (map (\<lambda>(n, w, c). w) (weighted_votes (structure_key demo_merged) demo_runs)) = 1
   \<and> cp_confidence demo_merged = 127 / 150"
proof -
  have total: "sum_list (map (\<lambda>(n, w, out). w) demo_runs) = 1"
    by (simp add: demo_runs_def)
  have pos: "\<forall>(n, w, out) \<in> set demo_runs. 0 < w"
    by (simp add: demo_runs_def)
  have some: "\<exists>(n, w, out) \<in> set demo_runs. responded out"
    by (simp add: demo_runs_def responded_def)
  have conf: "cp_confidence demo_merged = 127 / 150"
    by (simp add: demo_merged_def)
  from combiner_weights_sum_to_one [OF total pos some] total pos some conf show ?thesis
    by (simp add: demo_combine demo_merged_key demo_weighted list_all_iff list_ex_iff)
qed

section \<open>The orchestrator: total engine failure\<close>

lemma cache_get_miss: "fst (cache_get now ts k) = None \<Longrightarrow> snd (cache_get now ts k) = ts"
proof (induction ts)
  case Nil
  then show ?case by simp
next
  case (Cons t ts)
  then show ?case
    by (auto simp: tier_get_def split: option.splits prod.splits)
qed

text \<open>
  C2: for a request whose lookup misses, so that the engines are consulted, and for
  which no engine responds, the combiner returns the empty forest and signals
  \<open>TotalEngineFailure\<close>, \<open>analyze\<close> returns the fatal error and no result, and every
  cache tier is left as it was.
\<close>

theorem total_engine_failure_is_fatal_and_uncached:
  assumes none: "\<not> (\<exists>(n, w, out) \<in> set (run_engines (canonical (ar_text req))). responded out)"
    and miss: "fst (cache_get now cache (cache_key_of canonical req)) = None"
  shows "combine (run_engines (canonical (ar_text req)))
           = \<lparr>forest = [], total_engine_failure = True\<rparr>
         \<and> analyze canonical run_engines pipeline now cache req = (Inl TotalEngineFailure, cache)"
proof -
  from none
  have "\<not> list_ex (\<lambda>(n, w, out). responded out) (run_engines (canonical (ar_text req)))"
    by (auto simp: list_ex_iff)
  then have comb: "combine (run_engines (canonical (ar_text req)))
                     = \<lparr>forest = [], total_engine_failure = True\<rparr>"
    by (simp add: combine_def)
  from miss cache_get_miss [OF miss]
  have "cache_get now cache (cache_key_of canonical req) = (None, cache)"
    by (cases "cache_get now cache (cache_key_of canonical req)") simp
  with comb show ?thesis
    by (simp add: analyze_def cache_key_of_def)
qed

lemma demo_miss:
  "cache_get 5 (demo_memory # demo_slower) (''rAmaH gacCati'', Production)
     = (None, demo_memory # demo_slower)"
  by (simp add: demo_memory_def demo_slower_def tier_get_def)

text \<open>With all three engines down and empty tiers, the caller gets the fatal error.\<close>

theorem total_engine_failure_is_fatal_and_uncached_witness:
  "list_ex (\<lambda>(n, w, out). responded out) dead_runs = False
   \<and> fst (cache_get 5 (demo_memory # demo_slower) (cache_key_of id demo_request)) = None
   \<and> combine dead_runs = \<lparr>forest = [], total_engine_failure = True\<rparr>
   \<and> analyze id (\<lambda>t. dead_runs) demo_pipeline 5 (demo_memory # demo_slower) demo_request
       = (Inl TotalEngineFailure, demo_memory # demo_slower)"
proof -
  have none: "\<not> (\<exists>(n, w, out) \<in> set ((\<lambda>t. dead_runs) (id (ar_text demo_request))). responded out)"
    by (simp add: dead_runs_def responded_def)
  have miss: "fst (cache_get 5 (demo_memory # demo_slower) (cache_key_of id demo_request)) = None"
    by (simp add: cache_key_of_def demo_request_def demo_miss del: cache_get.simps)
  from total_engine_failure_is_fatal_and_uncached [OF none miss, of demo_pipeline] none miss
  show ?thesis by (simp add: list_ex_iff)
qed

section \<open>The orchestrator: a repeated request\<close>

lemma kind_of_memory: "policy t = MemoryLRU cap \<Longrightarrow> kind_of t = Memory"
  by (simp add: kind_of_def)

lemma policy_tier_get: "policy (snd (tier_get now t k)) = policy t"
  by (simp add: tier_get_def split: option.splits)

lemma policy_tier_put: "policy (tier_put now t k r) = policy t"
  by (simp add: tier_put_def)

lemma tier_put_then_get:
  assumes "policy t = MemoryLRU cap" and "0 < cap"
  shows "fst (tier_get now2 (tier_put now t k r) k) = Some r"
proof -
  from assms(2) obtain c where "cap = Suc c" by (cases cap) auto
  with assms(1) show ?thesis
    by (simp add: tier_get_def tier_put_def bounded_def live_def)
qed

lemma tier_get_then_get:
  assumes "policy t = MemoryLRU cap" and "tier_get now t k = (Some r, t')"
  shows "fst (tier_get now2 t' k) = Some r"
proof -
  from assms(2) obtain e
    where f: "find (\<lambda>e. ce_key e = k \<and> live now t e) (entries t) = Some e"
    and r: "r = ce_result e"
    and t': "t' = t\<lparr>entries := e\<lparr>accessed_at := now, access_count := access_count e + 1\<rparr>
                     # filter (\<lambda>x. ce_key x \<noteq> k) (entries t)\<rparr>"
    by (auto simp: tier_get_def split: option.splits)
  from find_SomeD [OF f] have "ce_key e = k" by simp
  with assms(1) r t' show ?thesis
    by (simp add: tier_get_def live_def)
qed

lemma analyze_hit_memory:
  assumes pol: "policy m = MemoryLRU cap"
    and hit: "fst (tier_get now2 m k) = Some r"
    and key: "cache_key_of canonical req2 = k"
  shows "fst (analyze canonical run_engines pipeline now2 (m # rest) req2)
           = Inr (r\<lparr>ar_cache_tier := Some Memory\<rparr>)"
proof -
  from hit obtain m2 where "tier_get now2 m k = (Some r, m2)"
    by (cases "tier_get now2 m k") auto
  with key kind_of_memory [OF pol] show ?thesis
    by (simp add: analyze_def)
qed

text \<open>
  C3: when the fastest tier is the in-memory tier, with room for at least one entry,
  and a call of \<open>analyze\<close> returns a result, then a second call with the same text and
  mode on the cache that the first call left, at any later time, returns the same
  result content with \<open>cache_tier = memory\<close>: it is served from the fastest tier.
\<close>

theorem analyze_twice_served_from_memory:
  assumes pol: "policy m = MemoryLRU cap" and cap: "0 < cap"
    and first: "analyze canonical run_engines pipeline now (m # rest) req = (Inr r1, cache1)"
    and same_text: "ar_text req2 = ar_text req" and same_mode: "ar_mode req2 = ar_mode req"
  shows "fst (analyze canonical run_engines pipeline now2 cache1 req2)
           = Inr (r1\<lparr>ar_cache_tier := Some Memory\<rparr>)"
proof -
  define k where "k = cache_key_of canonical req"
  have key2: "cache_key_of canonical req2 = k"
    using same_text same_mode by (simp add: k_def cache_key_of_def)
  show ?thesis
  proof (cases "tier_get now m k")
    case (Pair found m')
    show ?thesis
    proof (cases found)
      case (Some r)
      with Pair first have r1: "r1 = r\<lparr>ar_cache_tier := Some (kind_of m)\<rparr>"
        and c1: "cache1 = m' # rest"
        by (auto simp: analyze_def k_def [symmetric])
      have pol': "policy m' = MemoryLRU cap"
        using policy_tier_get [of now m k] Pair pol by simp
      have "fst (tier_get now2 m' k) = Some r"
        using tier_get_then_get [OF pol] Pair Some by simp
      from analyze_hit_memory [OF pol' this key2] r1 c1 show ?thesis by simp
    next
      case None
      show ?thesis
      proof (cases "cache_get now rest k")
        case inner: (Pair deeper rest')
        show ?thesis
        proof (cases deeper)
          case (Some hit)
          obtain r origin where h: "hit = (r, origin)" by (cases hit)
          with Pair None inner Some first
          have r1: "r1 = r\<lparr>ar_cache_tier := Some origin\<rparr>"
            and c1: "cache1 = tier_put now m k r # rest'"
            by (auto simp: analyze_def k_def [symmetric])
          have pol': "policy (tier_put now m k r) = MemoryLRU cap"
            using pol by (simp add: policy_tier_put)
          from analyze_hit_memory [OF pol' tier_put_then_get [OF pol cap] key2] r1 c1
          show ?thesis by simp
        next
          case deeper_none: None
          let ?out = "combine (run_engines (fst k))"
          from Pair None inner deeper_none first
          have ok: "\<not> total_engine_failure ?out"
            by (auto simp: analyze_def k_def [symmetric] Let_def split: if_splits)
          with Pair None inner deeper_none first
          have r1: "r1 = build_result k (forest ?out) (pipeline (forest ?out))"
            and c1: "cache1 = cache_put now (m # rest') k r1"
            by (auto simp: analyze_def k_def [symmetric] Let_def)
          from c1 have c1': "cache1 = tier_put now m k r1 # cache_put now rest' k r1"
            by (simp add: cache_put_def)
          have pol': "policy (tier_put now m k r1) = MemoryLRU cap"
            using pol by (simp add: policy_tier_put)
          from analyze_hit_memory [OF pol' tier_put_then_get [OF pol cap] key2] c1'
          show ?thesis by simp
        qed
      qed
    qed
  qed
qed

lemma demo_first_call:
  "fst (analyze id (\<lambda>t. demo_runs) demo_pipeline 5 (demo_memory # demo_slower) demo_request)
     = Inr demo_result"
  by (simp add: analyze_def cache_key_of_def demo_request_def demo_miss demo_combine
        build_result_def demo_pipeline_def demo_result_def demo_merged_def Let_def
        del: cache_get.simps)

text \<open>
  The first call runs the ensemble and stores the result; the second, one tick later,
  returns it from the in-memory tier.
\<close>

theorem analyze_twice_served_from_memory_witness:
  "policy demo_memory = MemoryLRU 2
   \<and> fst (analyze id (\<lambda>t. demo_runs) demo_pipeline 5 (demo_memory # demo_slower) demo_request)
       = Inr demo_result
   \<and> fst (analyze id (\<lambda>t. demo_runs) demo_pipeline 6
            (snd (analyze id (\<lambda>t. demo_runs) demo_pipeline 5 (demo_memory # demo_slower)
                    demo_request))
            demo_request)
       = Inr (demo_result\<lparr>ar_cache_tier := Some Memory\<rparr>)"
proof -
  have pol: "policy demo_memory = MemoryLRU 2"
    by (simp add: demo_memory_def)
  have cap: "(0::nat) < 2" by simp
  have first:
    "analyze id (\<lambda>t. demo_runs) demo_pipeline 5 (demo_memory # demo_slower) demo_request
       = (Inr demo_result,
          snd (analyze id (\<lambda>t. demo_runs) demo_pipeline 5 (demo_memory # demo_slower)
                 demo_request))"
    using demo_first_call
    by (cases "analyze id (\<lambda>t. demo_runs) demo_pipeline 5 (demo_memory # demo_slower) demo_request")
       simp
  from analyze_twice_served_from_memory [OF pol cap first refl refl, of 6] pol demo_first_call
  show ?thesis by simp
qed

end
